theory Spec2Isabelle
  imports Complex_Main "HOL-Library.Word" "HOL-Library.Sublist"
begin

section \<open>zoom_audio_bot.py: the session and audio-streaming pipeline\<close>

text \<open>
  The development follows \<^verbatim>\<open>src/zoom_audio_bot.py\<close>, class \<^verbatim>\<open>ZoomAudioBot\<close>.
  Pure computations (slicing, rendering of numbers, substring test) are HOL functions.
  Everything the program does to the outside (console, network connection, clock, audio
  file) is written as explicit state passing over a \<open>world\<close> record whose \<open>log\<close> keeps the
  events in the order they happen; what the outside answers is read from an \<open>env\<close> record.
  A raised Python exception is the left injection of a sum.
\<close>

subsection \<open>Bytes, slices and the chunk offsets of the loop\<close>

type_synonym byte = "8 word"
type_synonym bytes = "byte list"

text \<open>\<^verbatim>\<open>chunk_size = 1024 * 16  # 16KB chunks\<close>\<close>

definition chunk_size :: nat where
  "chunk_size = 1024 * 16"

text \<open>
  \<^verbatim>\<open>range(i, stop, step)\<close> for non-negative arguments: the offsets \<open>i, i + step, \<dots>\<close> below
  \<open>stop\<close>. Python raises ValueError for a zero step; the only step the program uses is
  \<open>chunk_size\<close>, and the model gives the empty list there.
\<close>

function range_py :: "nat \<Rightarrow> nat \<Rightarrow> nat \<Rightarrow> nat list" where
  "range_py i stop step =
     (if step = 0 \<or> stop \<le> i then [] else i # range_py (i + step) stop step)"
  by pat_completeness auto
termination
  by (relation "measure (\<lambda>(i, stop, step). stop - i)") auto

declare range_py.simps [simp del]

text \<open>
  \<^verbatim>\<open>xs[i:j]\<close> for \<open>0 \<le> i\<close>, \<open>0 \<le> j\<close>: Python clamps both ends to the length, and an end
  before the start gives the empty sequence.
\<close>

definition slice :: "'a list \<Rightarrow> nat \<Rightarrow> nat \<Rightarrow> 'a list" where
  "slice xs i j = take (j - i) (drop i xs)"

text \<open>
  The chunks the loop of \<^verbatim>\<open>play_audio_to_meeting\<close> takes, in the order it takes them:
  \<^verbatim>\<open>for i in range(0, len(audio_data), chunk_size): chunk = audio_data[i:i + chunk_size]\<close>.
\<close>

definition frames :: "bytes \<Rightarrow> bytes list" where
  "frames audio_data =
     map (\<lambda>i. slice audio_data i (i + chunk_size))
       (range_py 0 (length audio_data) chunk_size)"

subsection \<open>Text: decimal numbers, hexadecimal bytes, substrings\<close>

text \<open>
  \<^verbatim>\<open>str(n)\<close> as an f-string renders an integer: decimal digits, most significant
  first, no leading zero, a minus sign for a negative number.
\<close>

definition digit_char :: "nat \<Rightarrow> char" where
  "digit_char d = ''0123456789abcdef'' ! d"

function str_nat :: "nat \<Rightarrow> string" where
  "str_nat n = (if n < 10 then [digit_char n] else str_nat (n div 10) @ [digit_char (n mod 10)])"
  by pat_completeness auto
termination
  by (relation "measure (\<lambda>n. n)") auto

declare str_nat.simps [simp del]

definition str_int :: "int \<Rightarrow> string" where
  "str_int i = (if i < 0 then CHR ''-'' # str_nat (nat (- i)) else str_nat (nat i))"

text \<open>\<^verbatim>\<open>bytes.hex()\<close>: two lower-case hexadecimal digits for each byte.\<close>

definition hex :: "bytes \<Rightarrow> string" where
  "hex bs = concat (map (\<lambda>b. [digit_char (unat b div 16), digit_char (unat b mod 16)]) bs)"

text \<open>\<^verbatim>\<open>needle in text\<close> on two strings: \<open>needle\<close> occurs in \<open>text\<close> as a contiguous run.\<close>

fun str_in :: "string \<Rightarrow> string \<Rightarrow> bool" where
  "str_in needle [] = (needle = [])"
| "str_in needle (c # cs) = (prefix needle (c # cs) \<or> str_in needle cs)"

subsection \<open>Python floats\<close>

text \<open>
  A Python float is an IEEE 754 binary64 number; it is modelled by the real number it
  denotes. \<open>round64\<close> rounds a real to the nearest number with a 53-bit significand, a tie
  going to the even significand, as the processor does after each operation. A real is a
  float when rounding leaves it as it is, and \<^verbatim>\<open>x + y\<close> on floats is the rounded sum
  (\<open>log 2\<close> below is the real logarithm to the base 2). An
  \<^verbatim>\<open>int\<close> operand such as \<^verbatim>\<open>5000\<close> is converted first, here without change. Infinities and
  the subnormal range are not modelled: a clock reading of \<^verbatim>\<open>datetime\<close> (years 1 to 9999)
  and its sum with 5000 are far from both.
\<close>

definition round_half_even :: "real \<Rightarrow> int" where
  "round_half_even y =
     (let f = \<lfloor>y\<rfloor>; d = y - of_int f
      in if d < 1 / 2 then f else if 1 / 2 < d then f + 1 else if even f then f else f + 1)"

definition round64 :: "real \<Rightarrow> real" where
  "round64 x =
     (if x = 0 then 0
      else (let e = \<lfloor>log 2 \<bar>x\<bar>\<rfloor> - 52
            in of_int (round_half_even (x / 2 powr of_int e)) * 2 powr of_int e))"

definition is_float :: "real \<Rightarrow> bool" where
  "is_float x = (round64 x = x)"

definition float_add :: "real \<Rightarrow> real \<Rightarrow> real" where
  "float_add x y = round64 (x + y)"

subsection \<open>Signed tokens\<close>

text \<open>
  A JSON object is its list of members. A token made by \<^verbatim>\<open>jwt.encode(payload, key,
  algorithm='HS256')\<close> is kept as its three parts (the header's algorithm, the payload
  and the signature) instead of the dotted base64url text, which encodes the three parts
  one-to-one. The keyed hash itself is the library's; it comes in as a parameter
  \<open>hmac_sha256 key signing_input\<close>, where the signing input is the header with the payload.
\<close>

datatype jvalue = JStr string | JNum real

type_synonym jobject = "(string \<times> jvalue) list"

record jwt =
  jwt_alg :: string
  jwt_payload :: jobject
  jwt_signature :: bytes

type_synonym mac = "string \<Rightarrow> string \<times> jobject \<Rightarrow> bytes"

definition jwt_encode :: "mac \<Rightarrow> jobject \<Rightarrow> string \<Rightarrow> jwt" where
  "jwt_encode hmac_sha256 payload key =
     \<lparr>jwt_alg = ''HS256'', jwt_payload = payload,
      jwt_signature = hmac_sha256 key (''HS256'', payload)\<rparr>"

subsection \<open>The bot and what surrounds it\<close>

text \<open>The fields \<^verbatim>\<open>__init__\<close> sets.\<close>

record bot =
  api_key :: string
  api_secret :: string
  sdk_key :: string
  sdk_secret :: string
  base_url :: string
  ws_url :: string

text \<open>A message handed to \<^verbatim>\<open>websocket.send\<close>: the value \<^verbatim>\<open>json.dumps\<close> serialises.\<close>

record join_data =
  meetingNumber :: string
  role :: int
  sdkKey :: string
  signature :: jwt
  password :: string

datatype message = Join join_data | Audio string

text \<open>What \<^verbatim>\<open>websocket.recv()\<close> can give: a text frame, a binary frame, or no frame at all
  (the connection ends and the call raises).\<close>

datatype incoming = Text string | Binary bytes | NoFrame

datatype exn =
  ConnectFailed
  | ConnectionClosed
  | TypeError
  | CouldntDecode
  | UnboundLocalError

text \<open>
  The answers of the outside, fixed for one run: the keyed hash of the JWT library, the two
  clock readings (\<^verbatim>\<open>datetime.now().timestamp()\<close>, a float, in seconds,
  \<^verbatim>\<open>int(time.time() * 1000)\<close> in milliseconds), whether the endpoint accepts the
  connection, whether a send made at a given moment (the number of events so far) goes
  through while the connection is open, the frame the endpoint answers the join with, and
  what decoding the file at a path gives.
\<close>

record env =
  hmac_sha256 :: mac
  now_timestamp :: real
  time_ms :: int
  connect_ok :: bool
  net_send :: "nat \<Rightarrow> bool"
  response :: incoming
  from_mp3 :: "string \<Rightarrow> bytes option"

datatype conn_state = Unopened | Open | Closed

datatype event =
  Print string
  | PrintError exn
  | Connect bool
  | Send message bool
  | Recv bool
  | Close
  | Sleep

record world =
  conn :: conn_state
  log :: "event list"

definition start :: world where
  "start = \<lparr>conn = Unopened, log = []\<rparr>"

definition emit :: "event \<Rightarrow> world \<Rightarrow> world" where
  "emit e w = w\<lparr>log := log w @ [e]\<rparr>"

definition print :: "string \<Rightarrow> world \<Rightarrow> world" where
  "print s w = emit (Print s) w"

subsection \<open>The websockets client, as the program uses it\<close>

text \<open>
  \<^item> \<^verbatim>\<open>websockets.connect(url)\<close> raises or gives an open connection;
  \<^item> \<^verbatim>\<open>send\<close> and \<^verbatim>\<open>recv\<close> raise ConnectionClosed on a connection that is not open, and
    when the connection ends under them;
  \<^item> \<^verbatim>\<open>close()\<close> leaves the connection closed; on a closed connection it changes
    nothing, and the call is still logged;
  \<^item> leaving the block of \<^verbatim>\<open>async with websockets.connect(url) as websocket\<close> closes the
    connection, whichever way the block is left (fall through, \<^verbatim>\<open>return\<close>, exception).
\<close>

datatype handle = Websocket

definition ws_connect :: "env \<Rightarrow> world \<Rightarrow> (exn + handle) \<times> world" where
  "ws_connect env w =
     (if connect_ok env then (Inr Websocket, emit (Connect True) (w\<lparr>conn := Open\<rparr>))
      else (Inl ConnectFailed, emit (Connect False) w))"

definition ws_send :: "env \<Rightarrow> message \<Rightarrow> world \<Rightarrow> (exn + unit) \<times> world" where
  "ws_send env m w =
     (if conn w = Open \<and> net_send env (length (log w)) then (Inr (), emit (Send m True) w)
      else (Inl ConnectionClosed, emit (Send m False) (w\<lparr>conn := Closed\<rparr>)))"

definition ws_recv :: "env \<Rightarrow> world \<Rightarrow> (exn + incoming) \<times> world" where
  "ws_recv env w =
     (if conn w = Open \<and> response env \<noteq> NoFrame then (Inr (response env), emit (Recv True) w)
      else (Inl ConnectionClosed, emit (Recv False) (w\<lparr>conn := Closed\<rparr>)))"

definition ws_close :: "world \<Rightarrow> world" where
  "ws_close w = emit Close (w\<lparr>conn := Closed\<rparr>)"

subsection \<open>The methods of \<^verbatim>\<open>ZoomAudioBot\<close>\<close>

text \<open>
  \<^verbatim>\<open>_generate_jwt_token\<close>:
  \<^verbatim>\<open>jwt.encode({'iss': self.api_key, 'exp': datetime.now().timestamp() + 5000},
  self.api_secret, algorithm='HS256')\<close>. The clock reading is a float and the sum is the
  float sum.
\<close>

definition generate_jwt_token :: "bot \<Rightarrow> env \<Rightarrow> jwt" where
  "generate_jwt_token self env =
     jwt_encode (hmac_sha256 env)
       [(''iss'', JStr (api_key self)), (''exp'', JNum (float_add (now_timestamp env) 5000))]
       (api_secret self)"

text \<open>
  \<^verbatim>\<open>_generate_meeting_signature\<close>:
  \<^verbatim>\<open>timestamp = int(time.time() * 1000) - 30000\<close>,
  \<^verbatim>\<open>msg = f'{self.sdk_key}{meeting_id}{timestamp}{1}'\<close>,
  \<^verbatim>\<open>jwt.encode({'hash': msg}, self.sdk_secret, algorithm='HS256')\<close>.
\<close>

definition meeting_msg :: "bot \<Rightarrow> string \<Rightarrow> int \<Rightarrow> string" where
  "meeting_msg self meeting_id timestamp =
     sdk_key self @ meeting_id @ str_int timestamp @ str_int 1"

definition generate_meeting_signature :: "bot \<Rightarrow> env \<Rightarrow> string \<Rightarrow> jwt" where
  "generate_meeting_signature self env meeting_id =
     (let timestamp = time_ms env - 30000;
          msg = meeting_msg self meeting_id timestamp
      in jwt_encode (hmac_sha256 env) [(''hash'', JStr msg)] (sdk_secret self))"


text \<open>
  \<^verbatim>\<open>_connect_to_meeting\<close>. The \<^verbatim>\<open>headers\<close> dictionary is built and never used. The body
  of the \<^verbatim>\<open>async with\<close> block is \<open>join_exchange\<close>; the block is left by \<^verbatim>\<open>return\<close> or by
  an exception of \<^verbatim>\<open>send\<close>, \<^verbatim>\<open>recv\<close> or of the test \<^verbatim>\<open>'success' in response\<close> (a
  TypeError when the response is a binary frame), and leaving it closes the connection.
  The result is the value of \<^verbatim>\<open>websocket if 'success' in response else None\<close>.
\<close>

definition join_exchange ::
  "env \<Rightarrow> join_data \<Rightarrow> handle \<Rightarrow> world \<Rightarrow> (exn + handle option) \<times> world" where
  "join_exchange env jd websocket w =
     (case ws_send env (Join jd) w of
        (Inl e, w1) \<Rightarrow> (Inl e, w1)
      | (Inr _, w1) \<Rightarrow>
          (case ws_recv env w1 of
             (Inl e, w2) \<Rightarrow> (Inl e, w2)
           | (Inr resp, w2) \<Rightarrow>
               (case resp of
                  Text s \<Rightarrow> (Inr (if str_in ''success'' s then Some websocket else None), w2)
                | Binary b \<Rightarrow> (Inl TypeError, w2)
                | NoFrame \<Rightarrow> (Inl ConnectionClosed, w2))))"

definition connect_to_meeting ::
  "bot \<Rightarrow> env \<Rightarrow> string \<Rightarrow> string option \<Rightarrow> world \<Rightarrow> (exn + handle option) \<times> world" where
  "connect_to_meeting self env meeting_id pw w =
     (let headers = (generate_jwt_token self env, ''application/json'');
          jd = \<lparr>meetingNumber = meeting_id, role = 0, sdkKey = sdk_key self,
                signature = generate_meeting_signature self env meeting_id,
                password = (case pw of None \<Rightarrow> [] | Some p \<Rightarrow> p)\<rparr>
      in case ws_connect env w of
           (Inl e, w1) \<Rightarrow> (Inl e, w1)
         | (Inr websocket, w1) \<Rightarrow>
             (case join_exchange env jd websocket w1 of (r, w2) \<Rightarrow> (r, ws_close w2)))"

text \<open>\<^verbatim>\<open>_prepare_audio\<close>: \<^verbatim>\<open>AudioSegment.from_mp3(mp3_path).raw_data\<close>, or the decoder raises.\<close>

definition prepare_audio :: "env \<Rightarrow> string \<Rightarrow> exn + bytes" where
  "prepare_audio env mp3_path =
     (case from_mp3 env mp3_path of None \<Rightarrow> Inl CouldntDecode | Some raw \<Rightarrow> Inr raw)"

text \<open>
  The loop of \<^verbatim>\<open>play_audio_to_meeting\<close> over the offsets that are left: slice, send the
  hexadecimal text, sleep. An exception of \<^verbatim>\<open>send\<close> leaves the loop.
\<close>

fun stream :: "env \<Rightarrow> bytes \<Rightarrow> nat list \<Rightarrow> world \<Rightarrow> (exn + unit) \<times> world" where
  "stream env audio_data [] w = (Inr (), w)"
| "stream env audio_data (i # offsets) w =
     (let chunk = slice audio_data i (i + chunk_size)
      in case ws_send env (Audio (hex chunk)) w of
           (Inl e, w1) \<Rightarrow> (Inl e, w1)
         | (Inr _, w1) \<Rightarrow> stream env audio_data offsets (emit Sleep w1))"

text \<open>
  A local variable of a Python function is unbound until its first assignment; reading it
  unbound raises UnboundLocalError.
\<close>

datatype 'a local_var = Unbound | Bound 'a

text \<open>
  The \<^verbatim>\<open>try\<close> block of \<^verbatim>\<open>play_audio_to_meeting\<close>: how it ends (an exception, or normally,
  which includes the early \<^verbatim>\<open>return\<close>), and the local variable \<^verbatim>\<open>websocket\<close> as it stands
  then. The variable is assigned only when \<^verbatim>\<open>_connect_to_meeting\<close> returns.
\<close>

definition play_try ::
  "bot \<Rightarrow> env \<Rightarrow> string \<Rightarrow> string \<Rightarrow> string option \<Rightarrow> world
     \<Rightarrow> (exn + unit) \<times> handle option local_var \<times> world" where
  "play_try self env meeting_id mp3_path pw w =
     (case connect_to_meeting self env meeting_id pw
             (print (''Attempting to join meeting '' @ meeting_id @ ''...'') w) of
        (Inl e, w1) \<Rightarrow> (Inl e, Unbound, w1)
      | (Inr websocket, w1) \<Rightarrow>
          (case websocket of
             None \<Rightarrow> (Inr (), Bound websocket, print ''Failed to connect to meeting'' w1)
           | Some ws \<Rightarrow>
               (let w2 = print (''Preparing to play: '' @ mp3_path)
                           (print ''Successfully joined meeting'' w1)
                in case prepare_audio env mp3_path of
                     Inl e \<Rightarrow> (Inl e, Bound websocket, w2)
                   | Inr audio_data \<Rightarrow>
                       (case stream env audio_data
                               (range_py 0 (length audio_data) chunk_size) w2 of
                          (Inl e, w3) \<Rightarrow> (Inl e, Bound websocket, w3)
                        | (Inr _, w3) \<Rightarrow>
                            (Inr (), Bound websocket, print ''Finished playing audio'' w3)))))"

text \<open>
  \<^verbatim>\<open>play_audio_to_meeting\<close>: the \<^verbatim>\<open>try\<close> block, then \<^verbatim>\<open>except Exception as e\<close>, which
  prints the error and goes on, then \<^verbatim>\<open>finally: if websocket: await websocket.close()\<close>.
  \<open>Inr ()\<close> is the normal return (of \<^verbatim>\<open>None\<close>) to the caller, \<open>Inl e\<close> an exception that
  reaches the caller. Every exception of the model is an \<^verbatim>\<open>Exception\<close>, so the \<^verbatim>\<open>except\<close>
  clause catches it. A connection object is true in a test, closed or not; \<^verbatim>\<open>None\<close> is
  false. An exception raised by the \<^verbatim>\<open>finally\<close> clause itself is not caught by anything.
\<close>

definition play_audio_to_meeting ::
  "bot \<Rightarrow> env \<Rightarrow> string \<Rightarrow> string \<Rightarrow> string option \<Rightarrow> world \<Rightarrow> (exn + unit) \<times> world" where
  "play_audio_to_meeting self env meeting_id mp3_path pw w =
     (case play_try self env meeting_id mp3_path pw w of
        (r, websocket, w1) \<Rightarrow>
          (let w2 = (case r of Inl e \<Rightarrow> emit (PrintError e) w1 | Inr _ \<Rightarrow> w1)
           in case websocket of
                Unbound \<Rightarrow> (Inl UnboundLocalError, w2)
              | Bound None \<Rightarrow> (Inr (), w2)
              | Bound (Some ws) \<Rightarrow> (Inr (), ws_close w2)))"

subsection \<open>Reading a log\<close>

definition closes :: "world \<Rightarrow> nat" where
  "closes w = length (filter (\<lambda>e. e = Close) (log w))"

fun is_audio_send :: "event \<Rightarrow> bool" where
  "is_audio_send (Send (Audio d) ok) = True"
| "is_audio_send e = False"

fun delivered_audio :: "event list \<Rightarrow> string list" where
  "delivered_audio [] = []"
| "delivered_audio (Send (Audio d) True # es) = d # delivered_audio es"
| "delivered_audio (e # es) = delivered_audio es"

definition audio_attempts :: "world \<Rightarrow> nat" where
  "audio_attempts w = length (filter is_audio_send (log w))"






text \<open>The test of \<^verbatim>\<open>_connect_to_meeting\<close> on what the endpoint answers: a text frame in
  which \<^verbatim>\<open>success\<close> occurs.\<close>

fun has_success :: "incoming \<Rightarrow> bool" where
  "has_success (Text s) = str_in ''success'' s"
| "has_success (Binary b) = False"
| "has_success NoFrame = False"

subsection \<open>Concrete runs\<close>

text \<open>
  A bot with stand-in credentials, a decoded buffer of 40000 zero bytes, and five
  surroundings: an endpoint that acknowledges the join at once and never drops a send,
  one that answers without the word it is asked for, one that cannot be reached, one
  where the audio file is missing, and one where the file decodes to no bytes at all.
  The keyed hash is a stand-in; no result below depends on its values.
\<close>

definition demo_bot :: bot where
  "demo_bot = \<lparr>api_key = ''AK'', api_secret = ''AS'', sdk_key = ''SK'', sdk_secret = ''SS'',
     base_url = ''https://api.zoom.us/v2'', ws_url = ''wss://zoom.us/mpws''\<rparr>"

definition silence :: bytes where
  "silence = replicate 40000 0"

definition acknowledging :: env where
  "acknowledging = \<lparr>hmac_sha256 = (\<lambda>key input. []), now_timestamp = 1700000000,
     time_ms = 1700000000000, connect_ok = True, net_send = (\<lambda>t. True),
     response = Text ''success'', from_mp3 = (\<lambda>path. Some silence)\<rparr>"

definition refusing :: env where
  "refusing = acknowledging\<lparr>response := Text ''denied''\<rparr>"

definition unreachable :: env where
  "unreachable = acknowledging\<lparr>connect_ok := False\<rparr>"

definition no_file :: env where
  "no_file = acknowledging\<lparr>from_mp3 := (\<lambda>path. None)\<rparr>"

definition nothing_to_play :: env where
  "nothing_to_play = acknowledging\<lparr>from_mp3 := (\<lambda>path. Some [])\<rparr>"





text \<open>
  A reading of the seconds clock one second before \<open>2 ^ 31\<close> (19 January 2038), thirteen
  steps of \<open>2 ^ - 22\<close> into that second.
\<close>

definition late :: real where
  "late = 2147483647 + 13 / 4194304"

definition in_2038 :: env where
  "in_2038 = acknowledging\<lparr>now_timestamp := late\<rparr>"

section \<open>Properties\<close>

subsection \<open>Offsets and slices\<close>

lemma range_py_done: "stop \<le> i \<Longrightarrow> range_py i stop step = []"
  by (simp add: range_py.simps)

lemma range_py_step:
  "0 < step \<Longrightarrow> i < stop \<Longrightarrow> range_py i stop step = i # range_py (i + step) stop step"
  by (subst range_py.simps) simp

lemma concat_slices:
  "0 < F \<Longrightarrow> concat (map (\<lambda>j. slice xs j (j + F)) (range_py i (length xs) F)) = drop i xs"
proof (induction i "length xs" F rule: range_py.induct)
  case (1 i F)
  show ?case
  proof (cases "length xs \<le> i")
    case True
    then show ?thesis by (simp add: range_py_done)
  next
    case False
    then have lt: "i < length xs" by simp
    have "drop i xs = take F (drop i xs) @ drop (i + F) xs"
      by (metis append_take_drop_id drop_drop add.commute)
    with 1 lt show ?thesis
      by (simp add: range_py_step slice_def)
  qed
qed

lemma length_range_py:
  "0 < F \<Longrightarrow> length (range_py i n F) = (n - i + F - 1) div F"
proof (induction i n F rule: range_py.induct)
  case (1 i n F)
  show ?case
  proof (cases "n \<le> i")
    case True
    with 1(2) show ?thesis by (simp add: range_py_done)
  next
    case False
    then have lt: "i < n" by simp
    have "(n - i + F - 1) div F = Suc ((n - (i + F) + F - 1) div F)"
    proof (cases "i + F \<le> n")
      case True
      then have "n - i + F - 1 = (n - (i + F) + F - 1) + F" using 1(2) by simp
      then have "(n - i + F - 1) div F = ((n - (i + F) + F - 1) + F) div F" by (rule arg_cong)
      also have "\<dots> = Suc ((n - (i + F) + F - 1) div F)" using 1(2) by (simp only: div_add_self2 Suc_eq_plus1) 
      finally show ?thesis .
    next
      case False
      with lt 1(2) have "n - i + F - 1 < 2 * F" "F \<le> n - i + F - 1" by simp_all
      then have "(n - i + F - 1) div F = 1"
        by (metis One_nat_def div_nat_eqI mult.commute mult.right_neutral mult_2_right nat_1_add_1 plus_1_eq_Suc)
      moreover from False 1(2) have "(n - (i + F) + F - 1) div F = 0" by simp
      ultimately show ?thesis by simp
    qed
    with 1 lt show ?thesis by (simp add: range_py_step)
  qed
qed

lemma nth_range_py:
  "0 < F \<Longrightarrow> k < length (range_py i n F) \<Longrightarrow> range_py i n F ! k = i + k * F"
proof (induction i n F arbitrary: k rule: range_py.induct)
  case (1 i n F)
  show ?case
  proof (cases "n \<le> i")
    case True
    with 1(3) show ?thesis by (simp add: range_py_done)
  next
    case False
    then have lt: "i < n" by simp
    with 1 show ?thesis
      by (cases k) (simp_all add: range_py_step)
  qed
qed

lemma ceil_div:
  assumes "0 < F"
  shows "int ((L + F - 1) div F) = \<lceil>real L / real F\<rceil>"
proof -
  define n where "n = (L + F - 1) div F"
  define r where "r = (L + F - 1) mod F"
  have eq: "L + F - 1 = n * F + r" by (simp add: n_def r_def)
  have r: "r < F" using assms by (simp add: r_def)
  have up: "L \<le> n * F" using eq r by linarith
  have lo: "n * F < L + F" using eq assms by linarith
  have "real L \<le> real (n * F)" using up by (simp only: of_nat_le_iff)
  then have a: "real L / real F \<le> real n" using assms by (simp add: divide_le_eq)
  have "real (n * F) < real (L + F)" using lo by (simp only: of_nat_less_iff)
  then have b: "real n - 1 < real L / real F" using assms
    by (simp add: less_divide_eq algebra_simps)
  have "\<lceil>real L / real F\<rceil> = int n"
    by (rule ceiling_unique) (use a b in simp_all)
  then show ?thesis by (simp add: n_def)
qed

subsection \<open>The loop on an open connection\<close>

lemma stream_delivers:
  "conn w = Open \<Longrightarrow> (\<And>t. net_send env t) \<Longrightarrow>
   stream env a offs w =
     (Inr (), w\<lparr>log := log w @ concat (map (\<lambda>i. [Send (Audio (hex (slice a i (i + chunk_size)))) True, Sleep]) offs)\<rparr>)"
  by (induction offs arbitrary: w) (simp_all add: ws_send_def emit_def)

lemma delivered_audio_append:
  "delivered_audio (xs @ ys) = delivered_audio xs @ delivered_audio ys"
  by (induction xs rule: delivered_audio.induct) simp_all

lemma delivered_audio_sent:
  "delivered_audio (concat (map (\<lambda>i. [Send (Audio (f i)) True, Sleep]) offs)) = map f offs"
  by (induction offs) simp_all

text \<open>
  Claim C2. For every audio buffer of length \<open>L\<close>, with the frame size \<open>F = 16384\<close>, the
  loop takes exactly \<open>\<lceil>L / F\<rceil>\<close> chunks; chunk \<open>k\<close> is the run of at most \<open>F\<close> bytes that
  starts at offset \<open>k * F\<close>, so chunks are consecutive and do not overlap and only the
  last one can be shorter; their concatenation in order is the buffer. On an open
  connection on which every send goes through, the loop delivers the hexadecimal text of
  exactly these chunks, in this order.
\<close>

theorem frames_partition:
  "chunk_size = 16384
   \<and> int (length (frames buf)) = \<lceil>real (length buf) / real chunk_size\<rceil>
   \<and> concat (frames buf) = buf
   \<and> (\<forall>k < length (frames buf). frames buf ! k = take chunk_size (drop (k * chunk_size) buf))
   \<and> (\<forall>env w. conn w = Open \<and> (\<forall>t. net_send env t) \<longrightarrow>
        delivered_audio (log (snd (stream env buf (range_py 0 (length buf) chunk_size) w)))
          = delivered_audio (log w) @ map hex (frames buf))"
proof -
  have F: "0 < chunk_size" by (simp add: chunk_size_def)
  have c1: "chunk_size = 16384" by (simp add: chunk_size_def)
  have len: "length (frames buf) = (length buf + chunk_size - 1) div chunk_size"
    using length_range_py [OF F, of 0 "length buf"] by (simp add: frames_def)
  have c2: "int (length (frames buf)) = \<lceil>real (length buf) / real chunk_size\<rceil>"
    using ceil_div [OF F, of "length buf"] len by simp
  have c3: "concat (frames buf) = buf"
    using concat_slices [OF F, of buf 0] by (simp add: frames_def)
  have c4: "\<forall>k < length (frames buf). frames buf ! k = take chunk_size (drop (k * chunk_size) buf)"
    using nth_range_py [OF F, of _ 0 "length buf"] by (simp add: frames_def slice_def)
  have c5: "\<forall>env w. conn w = Open \<and> (\<forall>t. net_send env t) \<longrightarrow>
        delivered_audio (log (snd (stream env buf (range_py 0 (length buf) chunk_size) w)))
          = delivered_audio (log w) @ map hex (frames buf)"
    by (simp add: stream_delivers delivered_audio_append delivered_audio_sent frames_def)
  from c1 c2 c3 c4 c5 show ?thesis by blast
qed

theorem frames_partition_witness:
  "length (frames silence) = 3
   \<and> concat (frames silence) = silence
   \<and> frames silence ! 2 = replicate 7232 0
   \<and> delivered_audio (log (snd (stream acknowledging silence
          (range_py 0 (length silence) chunk_size) (start\<lparr>conn := Open\<rparr>))))
       = map hex (frames silence)"
proof -
  note P = frames_partition [of silence]
  have c: "chunk_size = 16384" using P by blast
  have "int (length (frames silence)) = \<lceil>real (length silence) / real chunk_size\<rceil>"
    using P by blast
  then have n: "length (frames silence) = 3" by (simp add: silence_def c)
  have "\<forall>k < length (frames silence).
          frames silence ! k = take chunk_size (drop (k * chunk_size) silence)"
    using P by blast
  then have "frames silence ! 2 = take chunk_size (drop (2 * chunk_size) silence)"
    using n by simp
  then have k: "frames silence ! 2 = replicate 7232 0" by (simp add: silence_def c)
  have cc: "concat (frames silence) = silence" using P by blast
  have "\<forall>env w. conn w = Open \<and> (\<forall>t. net_send env t) \<longrightarrow>
        delivered_audio (log (snd (stream env silence (range_py 0 (length silence) chunk_size) w)))
          = delivered_audio (log w) @ map hex (frames silence)"
    using P by blast
  then have "delivered_audio (log (snd (stream acknowledging silence
          (range_py 0 (length silence) chunk_size) (start\<lparr>conn := Open\<rparr>))))
       = delivered_audio (log (start\<lparr>conn := Open\<rparr>)) @ map hex (frames silence)"
    by (simp add: acknowledging_def)
  then show ?thesis using n k cc by (simp add: start_def)
qed

subsection \<open>Unfolding a run\<close>

lemma str_in_sublist: "str_in needle hay = sublist needle hay"
  by (induction hay) (auto simp: sublist_Cons_right)

lemma str_nat_small: "n < 10 \<Longrightarrow> str_nat n = [digit_char n]"
  by (simp add: str_nat.simps)

lemma str_nat_big: "10 \<le> n \<Longrightarrow> str_nat n = str_nat (n div 10) @ [digit_char (n mod 10)]"
  by (subst str_nat.simps) simp

lemmas io_defs = ws_connect_def ws_send_def ws_recv_def ws_close_def emit_def print_def

lemmas run_defs = play_audio_to_meeting_def play_try_def connect_to_meeting_def
  join_exchange_def io_defs start_def prepare_audio_def Let_def

lemmas token_defs = generate_meeting_signature_def generate_jwt_token_def jwt_encode_def
  meeting_msg_def Let_def

lemmas eval_defs = str_int_def str_nat_small str_nat_big digit_char_def range_py_done
  range_py_step chunk_size_def slice_def

lemmas demo_defs = acknowledging_def refusing_def unreachable_def no_file_def
  nothing_to_play_def demo_bot_def silence_def

subsection \<open>The connection after the join\<close>

lemma stream_not_open:
  "conn w \<noteq> Open \<Longrightarrow>
   stream env a offs w =
     (case offs of [] \<Rightarrow> (Inr (), w)
      | i # rest \<Rightarrow> (Inl ConnectionClosed,
          emit (Send (Audio (hex (slice a i (i + chunk_size)))) False) (w\<lparr>conn := Closed\<rparr>)))"
  by (cases offs) (simp_all add: ws_send_def)

lemma connect_not_open:
  "conn w \<noteq> Open \<Longrightarrow> conn (snd (connect_to_meeting self env meeting_id pw w)) \<noteq> Open"
  by (simp add: connect_to_meeting_def join_exchange_def io_defs Let_def
      split: prod.splits sum.splits incoming.splits)

text \<open>
  Claim C3. In every run in which the answer to the join is not a text frame containing
  \<^verbatim>\<open>success\<close>, no audio message is sent or even attempted, and the connection is not
  open when \<^verbatim>\<open>play_audio_to_meeting\<close> ends (it was closed, or never opened).
\<close>

theorem join_not_acknowledged:
  assumes "\<not> has_success (response env)"
  shows "audio_attempts (snd (play_audio_to_meeting self env meeting_id mp3_path pw start)) = 0
    \<and> delivered_audio (log (snd (play_audio_to_meeting self env meeting_id mp3_path pw start))) = []
    \<and> conn (snd (play_audio_to_meeting self env meeting_id mp3_path pw start)) \<noteq> Open"
  using assms
  by (cases "response env")
     (simp_all add: run_defs audio_attempts_def split: prod.splits sum.splits)

theorem join_not_acknowledged_witness:
  "\<not> has_success (response refusing)
   \<and> audio_attempts (snd (play_audio_to_meeting demo_bot refusing ''123'' ''a.mp3'' None start)) = 0
   \<and> delivered_audio (log (snd (play_audio_to_meeting demo_bot refusing ''123'' ''a.mp3'' None start))) = []
   \<and> conn (snd (play_audio_to_meeting demo_bot refusing ''123'' ''a.mp3'' None start)) \<noteq> Open"
proof -
  have h: "\<not> has_success (response refusing)" by (simp add: demo_defs)
  from join_not_acknowledged [OF h] h show ?thesis by blast
qed

lemma closes_general:
  "closes (snd (play_audio_to_meeting self env meeting_id mp3_path pw start)) =
     (if connect_ok env then (if net_send env 2 \<and> has_success (response env) then 2 else 1) else 0)"
  by (cases "response env"; cases "from_mp3 env mp3_path")
     (simp_all add: run_defs stream_not_open closes_def numeral_2_eq_2 split: list.splits)

text \<open>
  Claim C1. The number of times the connection is closed in one run of
  \<^verbatim>\<open>play_audio_to_meeting\<close>: never when the endpoint cannot be reached, once when the
  join is sent and not acknowledged, and twice when the join is acknowledged, whatever
  happens afterwards (all frames done, decoding fails, a send fails): once on leaving the
  \<^verbatim>\<open>async with\<close> block of \<^verbatim>\<open>_connect_to_meeting\<close> and once in the \<^verbatim>\<open>finally\<close> clause. With the
  acknowledging endpoint and the 40000-byte buffer the count is 2, not 1.
\<close>

theorem closed_twice:
  "closes (snd (play_audio_to_meeting self env meeting_id mp3_path pw start)) =
     (if connect_ok env then (if net_send env 2 \<and> has_success (response env) then 2 else 1) else 0)
   \<and> closes (snd (play_audio_to_meeting demo_bot acknowledging ''123'' ''a.mp3'' None start)) = 2"
  by (simp add: closes_general) (simp add: demo_defs)

text \<open>
  Claim C4. \<^verbatim>\<open>_connect_to_meeting\<close> never leaves the connection open: whatever the endpoint
  does, the connection is closed (or was never opened) when it returns. With the
  acknowledging endpoint it returns the handle, after one send and one receive, and the
  connection behind that handle is already closed.
\<close>

theorem returned_handle_is_closed:
  "conn (snd (connect_to_meeting self env meeting_id pw start)) \<noteq> Open
   \<and> connect_to_meeting demo_bot acknowledging ''123'' None start =
       (Inr (Some Websocket),
        \<lparr>conn = Closed,
         log = [Connect True,
                Send (Join \<lparr>meetingNumber = ''123'', role = 0, sdkKey = ''SK'',
                             signature = generate_meeting_signature demo_bot acknowledging ''123'',
                             password = []\<rparr>) True,
                Recv True, Close]\<rparr>)"
proof -
  have "conn start \<noteq> Open" by (simp add: start_def)
  then have "conn (snd (connect_to_meeting self env meeting_id pw start)) \<noteq> Open"
    by (rule connect_not_open)
  moreover have "connect_to_meeting demo_bot acknowledging ''123'' None start =
       (Inr (Some Websocket),
        \<lparr>conn = Closed,
         log = [Connect True,
                Send (Join \<lparr>meetingNumber = ''123'', role = 0, sdkKey = ''SK'',
                             signature = generate_meeting_signature demo_bot acknowledging ''123'',
                             password = []\<rparr>) True,
                Recv True, Close]\<rparr>)"
    by (simp add: run_defs demo_defs)
  ultimately show ?thesis by blast
qed

lemma frames_silence: "frames silence = [replicate 16384 0, replicate 16384 0, replicate 7232 0]"
  by (simp add: frames_def silence_def eval_defs)

text \<open>
  Claim C6. Scenario A: stand-in credentials, the join acknowledged at once, a decoded
  buffer of 40000 bytes. The chunks of the buffer have 16384, 16384 and 7232 bytes. The
  run sends none of them: the first send is made on the connection that
  \<^verbatim>\<open>_connect_to_meeting\<close> closed, raises, the error is printed, and the method returns
  normally; \<^verbatim>\<open>Finished playing audio\<close> is not printed.
\<close>

theorem scenario_a_sends_nothing:
  "map length (frames silence) = [16384, 16384, 7232]
   \<and> fst (play_audio_to_meeting demo_bot acknowledging ''123'' ''a.mp3'' None start) = Inr ()
   \<and> drop 5 (log (snd (play_audio_to_meeting demo_bot acknowledging ''123'' ''a.mp3'' None start))) =
       [Print ''Successfully joined meeting'', Print ''Preparing to play: a.mp3'',
        Send (Audio (hex (replicate 16384 0))) False, PrintError ConnectionClosed, Close]
   \<and> delivered_audio (log (snd (play_audio_to_meeting demo_bot acknowledging ''123'' ''a.mp3'' None start))) = []"
  by (simp add: frames_silence) (simp add: run_defs demo_defs eval_defs)

lemma play_result:
  "fst (play_audio_to_meeting self env meeting_id mp3_path pw start) =
     (if connect_ok env \<and> net_send env 2
      then (case response env of
              Text s \<Rightarrow> Inr ()
            | Binary b \<Rightarrow> Inl UnboundLocalError
            | NoFrame \<Rightarrow> Inl UnboundLocalError)
      else Inl UnboundLocalError)"
  by (cases "response env"; cases "from_mp3 env mp3_path")
     (simp_all add: run_defs stream_not_open numeral_2_eq_2 split: list.splits)

text \<open>
  Claim C10. \<^verbatim>\<open>play_audio_to_meeting\<close> ends with UnboundLocalError in every run in which
  \<^verbatim>\<open>_connect_to_meeting\<close> raises (the endpoint cannot be reached, the join cannot be sent,
  no answer comes, or the answer is a binary frame), and returns normally in every other
  run. When the endpoint cannot be reached, \<^verbatim>\<open>_connect_to_meeting\<close> raises before
  \<^verbatim>\<open>websocket\<close> is assigned; the \<^verbatim>\<open>except\<close> clause prints the error, the test
  \<^verbatim>\<open>if websocket\<close> of the \<^verbatim>\<open>finally\<close> clause reads the unbound variable, and the method
  ends with UnboundLocalError.
\<close>

theorem unbound_websocket:
  "fst (play_audio_to_meeting self env meeting_id mp3_path pw start) =
     (if connect_ok env \<and> net_send env 2
      then (case response env of
              Text s \<Rightarrow> Inr ()
            | Binary b \<Rightarrow> Inl UnboundLocalError
            | NoFrame \<Rightarrow> Inl UnboundLocalError)
      else Inl UnboundLocalError)
   \<and> play_audio_to_meeting demo_bot unreachable ''123'' ''a.mp3'' None start =
       (Inl UnboundLocalError,
        \<lparr>conn = Unopened,
         log = [Print ''Attempting to join meeting 123...'', Connect False,
                PrintError ConnectFailed]\<rparr>)"
  by (simp add: play_result) (simp add: run_defs demo_defs)

subsection \<open>Decimal rendering is one-to-one\<close>







lemma str_int_1: "str_int 1 = ''1''"
  by (simp add: eval_defs)

lemma meeting_payload:
  "jwt_payload (generate_meeting_signature self env meeting_id) =
     [(''hash'', JStr (sdk_key self @ meeting_id @ str_int (time_ms env - 30000) @ ''1''))]"
  by (simp add: token_defs str_int_1)

text \<open>
  Claim C5. For every meeting identifier and every reading of the clock, the signed
  payload is \<open>{'hash': msg}\<close> where \<open>msg\<close> is the SDK key, the meeting identifier, the
  clock reading in milliseconds minus 30000 in decimal, and the constant 1, in this order
  and with nothing between them; it is signed with the SDK secret under HS256. The constant
  is 1, not the 0 that the join request of \<^verbatim>\<open>_connect_to_meeting\<close> carries as its role:
  at the clock reading 1700000000000, SDK key SK and meeting 123 the message is
  \<^verbatim>\<open>SK12316999999700001\<close>.
\<close>

theorem signature_binds_role_one:
  "jwt_payload (generate_meeting_signature self env meeting_id) =
     [(''hash'', JStr (sdk_key self @ meeting_id @ str_int (time_ms env - 30000) @ ''1''))]
   \<and> jwt_alg (generate_meeting_signature self env meeting_id) = ''HS256''
   \<and> jwt_signature (generate_meeting_signature self env meeting_id) =
       hmac_sha256 env (sdk_secret self)
         (''HS256'', jwt_payload (generate_meeting_signature self env meeting_id))
   \<and> time_ms acknowledging = 1700000000000
   \<and> jwt_payload (generate_meeting_signature demo_bot acknowledging ''123'') =
       [(''hash'', JStr (''SK'' @ ''123'' @ ''1699999970000'' @ ''1''))]
   \<and> jwt_payload (generate_meeting_signature demo_bot acknowledging ''123'') \<noteq>
       [(''hash'', JStr (''SK'' @ ''123'' @ ''1699999970000'' @ ''0''))]"
  by (simp add: meeting_payload) (simp add: token_defs demo_defs eval_defs)




subsection \<open>The float sum of the expiry\<close>

lemma round_half_even_of_int: "round_half_even (of_int z) = z"
  by (simp add: round_half_even_def)

lemma round64_binade:
  assumes "2 powr of_int k \<le> x" "x < 2 powr (of_int k + 1)"
  shows "round64 x = of_int (round_half_even (x / 2 powr of_int (k - 52))) * 2 powr of_int (k - 52)"
proof -
  have "(0::real) < 2 powr of_int k" by simp
  with assms(1) have pos: "0 < x" by linarith
  then have "\<lfloor>Transcendental.log 2 x\<rfloor> = k" using assms by (simp add: floor_log_eq_powr_iff)
  with pos show ?thesis by (simp add: round64_def)
qed

lemma round64_30:
  assumes "2 ^ 30 \<le> x" "x < 2 ^ 31"
  shows "round64 x = of_int (round_half_even (x * 2 ^ 22)) / 2 ^ 22"
proof -
  have "2 powr of_int 30 \<le> x" "x < 2 powr (of_int 30 + 1)" using assms by simp_all
  from round64_binade [OF this] show ?thesis by (simp add: powr_minus field_simps)
qed

lemma round64_31:
  assumes "2 ^ 31 \<le> x" "x < 2 ^ 32"
  shows "round64 x = of_int (round_half_even (x * 2 ^ 21)) / 2 ^ 21"
proof -
  have "2 powr of_int 31 \<le> x" "x < 2 powr (of_int 31 + 1)" using assms by simp_all
  from round64_binade [OF this] show ?thesis by (simp add: powr_minus field_simps)
qed

lemma float_add_exact:
  assumes f: "is_float now" and lo: "2 ^ 30 \<le> now" and hi: "now + 5000 < 2 ^ 31"
  shows "float_add now 5000 = now + 5000"
proof -
  have hi': "now < 2 ^ 31" using hi by simp
  from f have "now = of_int (round_half_even (now * 2 ^ 22)) / 2 ^ 22"
    using round64_30 [OF lo hi'] by (simp add: is_float_def)
  then obtain m :: int where m: "now = of_int m / 2 ^ 22" by blast
  have "(now + 5000) * 2 ^ 22 = of_int (m + 5000 * 2 ^ 22)"
    by (simp add: m field_simps)
  then have r: "round_half_even ((now + 5000) * 2 ^ 22) = m + 5000 * 2 ^ 22"
    by (simp only: round_half_even_of_int)
  have lo2: "2 ^ 30 \<le> now + 5000" using lo by simp
  have "round64 (now + 5000) = of_int (m + 5000 * 2 ^ 22) / 2 ^ 22"
    using round64_30 [OF lo2 hi] by (simp only: r)
  also have "\<dots> = now + 5000" by (simp add: m field_simps)
  finally show ?thesis by (simp add: float_add_def)
qed

lemma late_is_float: "is_float late"
proof -
  have "round64 late = of_int (round_half_even (late * 2 ^ 22)) / 2 ^ 22"
    by (rule round64_30) (simp_all add: late_def)
  moreover have "late * 2 ^ 22 = of_int (2147483647 * 4194304 + 13)"
    by (simp add: late_def)
  ultimately have "round64 late = of_int (2147483647 * 4194304 + 13) / 2 ^ 22"
    by (simp only: round_half_even_of_int)
  then show ?thesis by (simp add: is_float_def late_def)
qed

lemma late_sum: "float_add late 5000 = 2251805055516675 / 1048576"
proof -
  have a: "round64 (late + 5000) = of_int (round_half_even ((late + 5000) * 2 ^ 21)) / 2 ^ 21"
    by (rule round64_31) (simp_all add: late_def)
  have b: "(late + 5000) * 2 ^ 21 = 9007220222066701 / 2"
    by (simp add: late_def)
  have c: "round_half_even (9007220222066701 / 2) = 4503610111033350"
    by (simp add: round_half_even_def Let_def)
  have "round64 (late + 5000) = of_int 4503610111033350 / 2 ^ 21"
    by (simp only: a b c)
  then show ?thesis by (simp add: float_add_def)
qed

lemma late_differs: "float_add late 5000 \<noteq> late + 5000"
  by (simp add: late_sum) (simp add: late_def)

lemma now_is_float: "is_float 1700000000"
proof -
  have "round64 1700000000 = of_int (round_half_even (1700000000 * 2 ^ 22)) / 2 ^ 22"
    by (rule round64_30) simp_all
  moreover have "(1700000000::real) * 2 ^ 22 = of_int (1700000000 * 4194304)"
    by simp
  ultimately have "round64 1700000000 = of_int (1700000000 * 4194304) / 2 ^ 22"
    by (simp only: round_half_even_of_int)
  then show ?thesis by (simp add: is_float_def)
qed

text \<open>
  Claim C9, as stated, fails at a late clock reading: thirteen steps of \<open>2 ^ - 22\<close> after
  2147483647 the exact sum with 5000 lies halfway between two floats and the float sum
  is the lower one, so the expiry claim is not the current time plus 5000.
\<close>

theorem expiry_is_rounded:
  "is_float (now_timestamp in_2038)
   \<and> jwt_payload (generate_jwt_token demo_bot in_2038) =
       [(''iss'', JStr ''AK''), (''exp'', JNum (2251805055516675 / 1048576))]
   \<and> jwt_payload (generate_jwt_token demo_bot in_2038) \<noteq>
       [(''iss'', JStr (api_key demo_bot)), (''exp'', JNum (now_timestamp in_2038 + 5000))]"
  using late_is_float late_sum late_differs
  by (simp add: token_defs in_2038_def demo_defs)

text \<open>
  Claim C9, amended. For every reading of the clock, the authorisation token has the
  algorithm HS256, the payload \<open>{'iss': api_key, 'exp': e}\<close> and nothing else, where \<open>e\<close>
  is the float sum of the clock reading and 5000, and the signature that the keyed hash
  gives under the API secret; the function reads the clock and changes nothing. For every
  float clock reading from \<open>2 ^ 30\<close> seconds on whose sum with 5000 is below \<open>2 ^ 31\<close>
  seconds (10 January 2004 to 19 January 2038), \<open>e\<close> is the clock reading plus 5000 exactly.
\<close>

theorem auth_token:
  "jwt_alg (generate_jwt_token self env) = ''HS256''
   \<and> jwt_payload (generate_jwt_token self env) =
       [(''iss'', JStr (api_key self)), (''exp'', JNum (float_add (now_timestamp env) 5000))]
   \<and> jwt_signature (generate_jwt_token self env) =
       hmac_sha256 env (api_secret self) (''HS256'', jwt_payload (generate_jwt_token self env))
   \<and> (is_float (now_timestamp env) \<and> 2 ^ 30 \<le> now_timestamp env
        \<and> now_timestamp env + 5000 < 2 ^ 31 \<longrightarrow>
       jwt_payload (generate_jwt_token self env) =
         [(''iss'', JStr (api_key self)), (''exp'', JNum (now_timestamp env + 5000))])"
  by (simp add: token_defs float_add_exact)

theorem auth_token_witness:
  "is_float (now_timestamp acknowledging) \<and> 2 ^ 30 \<le> now_timestamp acknowledging
   \<and> now_timestamp acknowledging + 5000 < 2 ^ 31
   \<and> jwt_alg (generate_jwt_token demo_bot acknowledging) = ''HS256''
   \<and> jwt_payload (generate_jwt_token demo_bot acknowledging) =
       [(''iss'', JStr ''AK''), (''exp'', JNum 1700005000)]"
proof -
  have h: "is_float (now_timestamp acknowledging) \<and> 2 ^ 30 \<le> now_timestamp acknowledging
     \<and> now_timestamp acknowledging + 5000 < 2 ^ 31"
    using now_is_float by (simp add: demo_defs)
  from auth_token [of demo_bot acknowledging] h
  have "jwt_alg (generate_jwt_token demo_bot acknowledging) = ''HS256''"
    and "jwt_payload (generate_jwt_token demo_bot acknowledging) =
      [(''iss'', JStr (api_key demo_bot)), (''exp'', JNum (now_timestamp acknowledging + 5000))]"
    by blast+
  with h show ?thesis by (simp add: demo_defs)
qed

subsection \<open>What the caller sees of a failure\<close>






end
